theory Spec2Isabelle
  imports Complex_Main
begin

section \<open>Python values and errors\<close>

text \<open>
  The scheduling core of \<^verbatim>\<open>scr/oxdna_simulation.py\<close> (class \<^verbatim>\<open>SimulationManager\<close>) is
  embedded here. Every exception the Python code can raise on the paths that are modelled is
  a value of \<open>py_error\<close>; a fallible function returns \<open>py_error + 'a\<close> with \<open>Inl\<close> the
  exception.
\<close>

datatype py_error =
    RuntimeError
  | ValueError
  | IndexError
  | KeyError
  | UnicodeDecodeError
  | FileNotFoundError
  | AttributeError

subsection \<open>The string operations used by the source\<close>

text \<open>\<^verbatim>\<open>bytes.decode('ascii')\<close>: fails on any byte above 127.\<close>

definition decode_ascii :: "string \<Rightarrow> py_error + string" where
  "decode_ascii bs = (if list_all (\<lambda>c. (of_char c :: nat) < 128) bs then Inr bs else Inl UnicodeDecodeError)"

text \<open>\<^verbatim>\<open>str.split(sep)\<close> for a one-character separator: empty fields are kept.\<close>

fun split_on :: "char \<Rightarrow> string \<Rightarrow> string list" where
  "split_on sep [] = [[]]"
| "split_on sep (c # cs) =
     (if c = sep then [] # split_on sep cs
      else (case split_on sep cs of
              [] \<Rightarrow> [[c]]
            | w # ws \<Rightarrow> (c # w) # ws))"

text \<open>
  \<^verbatim>\<open>str.split()\<close> without argument: fields are separated by runs of whitespace and empty
  fields are dropped. On ASCII text Python's whitespace is TAB, LF, VT, FF, CR, the four
  separators 28..31 and the space.
\<close>

definition is_space :: "char \<Rightarrow> bool" where
  "is_space c = ((of_char c :: nat) \<in> {9, 10, 11, 12, 13, 28, 29, 30, 31, 32})"

fun split_acc :: "string \<Rightarrow> string \<Rightarrow> string list" where
  "split_acc w [] = (if w = [] then [] else [w])"
| "split_acc w (c # cs) =
     (if is_space c then (if w = [] then split_acc [] cs else w # split_acc [] cs)
      else split_acc (w @ [c]) cs)"

definition py_split :: "string \<Rightarrow> string list" where
  "py_split s = split_acc [] s"

text \<open>
  \<^verbatim>\<open>int(s)\<close> on a whitespace-free ASCII token: an optional sign, then decimal digits in
  which single underscores may separate digits. Anything else is a \<^verbatim>\<open>ValueError\<close>.
  (The limit that recent Python versions put on the number of digits is not modelled.)
\<close>

definition is_digit :: "char \<Rightarrow> bool" where
  "is_digit c = (48 \<le> (of_char c :: nat) \<and> (of_char c :: nat) \<le> 57)"

definition digit_val :: "char \<Rightarrow> nat" where
  "digit_val c = of_char c - 48"

fun parse_digits :: "bool \<Rightarrow> nat \<Rightarrow> string \<Rightarrow> nat option" where
  "parse_digits prev acc [] = (if prev then Some acc else None)"
| "parse_digits prev acc (c # cs) =
     (if is_digit c then parse_digits True (10 * acc + digit_val c) cs
      else if c = CHR ''_'' \<and> prev then parse_digits False acc cs
      else None)"

definition py_int :: "string \<Rightarrow> py_error + int" where
  "py_int s =
     (case s of
        [] \<Rightarrow> Inl ValueError
      | c # r \<Rightarrow>
          if c = CHR ''-'' then
            (case parse_digits False 0 r of None \<Rightarrow> Inl ValueError | Some n \<Rightarrow> Inr (- int n))
          else if c = CHR ''+'' then
            (case parse_digits False 0 r of None \<Rightarrow> Inl ValueError | Some n \<Rightarrow> Inr (int n))
          else
            (case parse_digits False 0 s of None \<Rightarrow> Inl ValueError | Some n \<Rightarrow> Inr (int n)))"

text \<open>\<^verbatim>\<open>max(xs)\<close> and \<^verbatim>\<open>xs.index(v)\<close> on lists; both raise \<^verbatim>\<open>ValueError\<close> when there is
  nothing to return.\<close>

fun py_max :: "int list \<Rightarrow> py_error + int" where
  "py_max [] = Inl ValueError"
| "py_max (x # xs) = Inr (fold max xs x)"

fun py_index :: "'a list \<Rightarrow> 'a \<Rightarrow> py_error + nat" where
  "py_index [] v = Inl ValueError"
| "py_index (x # xs) v =
     (if x = v then Inr 0
      else (case py_index xs v of Inl e \<Rightarrow> Inl e | Inr i \<Rightarrow> Inr (Suc i)))"

section \<open>Device Monitor: \<^verbatim>\<open>SimulationManager.gpu_resources\<close>\<close>

text \<open>
  The external command \<^verbatim>\<open>nvidia-smi --query-gpu=memory.free --format=csv\<close> is the
  environment: one call yields an exit status and the bytes it printed.
  \<^verbatim>\<open>subprocess.check_output\<close> raises \<^verbatim>\<open>CalledProcessError\<close> on a non-zero exit status,
  which the source turns into a \<^verbatim>\<open>RuntimeError\<close>.
\<close>

datatype cmd_result = Exited int string

definition check_output :: "cmd_result \<Rightarrow> py_error + string" where
  "check_output r = (case r of Exited code out \<Rightarrow> if code = 0 then Inr out else Inl RuntimeError)"

text \<open>\<^verbatim>\<open>output_to_list = lambda x: x.decode('ascii').split('\n')[:-1]\<close>\<close>

definition output_to_list :: "string \<Rightarrow> py_error + string list" where
  "output_to_list x =
     (case decode_ascii x of
        Inl e \<Rightarrow> Inl e
      | Inr s \<Rightarrow> Inr (butlast (split_on (CHR 0x0A) s)))"

text \<open>\<^verbatim>\<open>int(x.split()[0])\<close> for one line of the listing.\<close>

definition parse_line :: "string \<Rightarrow> py_error + int" where
  "parse_line x = (case py_split x of [] \<Rightarrow> Inl IndexError | w # _ \<Rightarrow> py_int w)"

fun parse_lines :: "string list \<Rightarrow> py_error + int list" where
  "parse_lines [] = Inr []"
| "parse_lines (x # xs) =
     (case parse_line x of
        Inl e \<Rightarrow> Inl e
      | Inr v \<Rightarrow> (case parse_lines xs of Inl e \<Rightarrow> Inl e | Inr vs \<Rightarrow> Inr (v # vs)))"

text \<open>The per-device readings: the listing without its header line (\<^verbatim>\<open>[1:]\<close>), parsed.\<close>

definition avalible_memory :: "string \<Rightarrow> py_error + int list" where
  "avalible_memory out =
     (case output_to_list out of
        Inl e \<Rightarrow> Inl e
      | Inr ls \<Rightarrow> parse_lines (tl ls))"

text \<open>
  The selection step: \<^verbatim>\<open>max\<close>, then \<^verbatim>\<open>index\<close>. \<^verbatim>\<open>np.round(v, 2)\<close> leaves an integer
  unchanged.
\<close>

definition most_free :: "int list \<Rightarrow> py_error + (int \<times> nat)" where
  "most_free ms =
     (case py_max ms of
        Inl e \<Rightarrow> Inl e
      | Inr m \<Rightarrow> (case py_index ms m of Inl e \<Rightarrow> Inl e | Inr i \<Rightarrow> Inr (m, i)))"

definition gpu_resources :: "cmd_result \<Rightarrow> py_error + (int \<times> nat)" where
  "gpu_resources r =
     (case check_output r of
        Inl e \<Rightarrow> Inl e
      | Inr out \<Rightarrow>
          (case avalible_memory out of
             Inl e \<Rightarrow> Inl e
           | Inr ms \<Rightarrow> most_free ms))"

section \<open>Jobs: \<^verbatim>\<open>Simulation\<close>, \<^verbatim>\<open>Input\<close>, \<^verbatim>\<open>OxpyRun\<close>\<close>

text \<open>
  A job is a \<^verbatim>\<open>Simulation\<close> object together with its directory on disk. The parameter
  dictionary \<^verbatim>\<open>sim.input.input\<close> maps names to strings (oxpy's \<^verbatim>\<open>InputFile\<close> takes
  string values only, and \<^verbatim>\<open>write_input\<close> passes every entry to it). The record keeps
  the in-memory dictionary, the dictionary persisted in \<^verbatim>\<open>input.json\<close>, the listing of the
  directory in the order \<^verbatim>\<open>os.listdir\<close> returns it, the attribute
  \<^verbatim>\<open>sim.sim_files.last_conf\<close> and the captured standard error of the last engine run.
  Each job owns its directory.
\<close>

type_synonym params = "string \<Rightarrow> string option"

record simulation =
  sim_dir :: string
  input :: params
  input_json :: "params option"
  file_list :: "string list"
  last_conf :: "string option"
  sim_output_err :: string

text \<open>The value of a parameter as persisted in \<^verbatim>\<open>input.json\<close>.\<close>

definition persisted :: "simulation \<Rightarrow> string \<Rightarrow> string option" where
  "persisted sim k = (case input_json sim of None \<Rightarrow> None | Some p \<Rightarrow> p k)"

definition startswith :: "string \<Rightarrow> string \<Rightarrow> bool" where
  "startswith p s = (take (length p) s = p)"

definition endswith :: "string \<Rightarrow> string \<Rightarrow> bool" where
  "endswith x s = (length x \<le> length s \<and> drop (length s - length x) s = x)"

definition add_file :: "string \<Rightarrow> string list \<Rightarrow> string list" where
  "add_file f fs = (if f \<in> set fs then fs else fs @ [f])"

text \<open>\<^verbatim>\<open>os.remove\<close>: the file must exist.\<close>

definition os_remove :: "string \<Rightarrow> string list \<Rightarrow> py_error + string list" where
  "os_remove f fs = (if f \<in> set fs then Inr (filter (\<lambda>g. g \<noteq> f) fs) else Inl FileNotFoundError)"

definition is_conf_dat :: "string \<Rightarrow> bool" where
  "is_conf_dat f = (endswith ''.dat'' f \<and> \<not> endswith ''energy.dat'' f
                    \<and> \<not> endswith ''trajectory.dat'' f \<and> \<not> endswith ''error_conf.dat'' f)"

text \<open>\<^verbatim>\<open>Input.get_last_conf_top\<close>: returns \<open>(top, dat)\<close>; each \<^verbatim>\<open>[0]\<close> on an empty
  selection is an \<^verbatim>\<open>IndexError\<close>, and only the one for \<^verbatim>\<open>last_conf\<close> is caught.\<close>

definition get_last_conf_top :: "string list \<Rightarrow> py_error + (string \<times> string)" where
  "get_last_conf_top conf_top =
     (case filter (endswith ''.top'') conf_top of
        [] \<Rightarrow> Inl IndexError
      | tp # _ \<Rightarrow>
          (case filter (startswith ''last_conf'') conf_top of
             lc # _ \<Rightarrow> Inr (tp, lc)
           | [] \<Rightarrow>
               (case filter is_conf_dat conf_top of
                  [] \<Rightarrow> Inl IndexError
                | d # _ \<Rightarrow> Inr (tp, d))))"

text \<open>A file name that none of the three selections of \<^verbatim>\<open>get_last_conf_top\<close> picks.\<close>

definition not_candidate :: "string \<Rightarrow> bool" where
  "not_candidate f = (\<not> endswith ''.top'' f \<and> \<not> startswith ''last_conf'' f \<and> \<not> is_conf_dat f)"

text \<open>
  \<^verbatim>\<open>Input.write_input\<close> with \<^verbatim>\<open>production=False\<close> (the only way the scheduling core
  reaches it): the configuration and topology entries are reset from the directory, then the
  dictionary is written to \<^verbatim>\<open>input.json\<close> and \<^verbatim>\<open>input\<close>. A function that may raise
  after it has changed the job returns the error (if any) together with the job as the
  exception leaves it.
\<close>

definition write_input :: "simulation \<Rightarrow> py_error option \<times> simulation" where
  "write_input sim =
     (case get_last_conf_top (file_list sim) of
        Inl e \<Rightarrow> (Some e, sim)
      | Inr (tp, dat) \<Rightarrow>
          (let inp = (input sim)(''conf_file'' \<mapsto> dat, ''topology'' \<mapsto> tp)
           in (None, sim\<lparr>input := inp, input_json := Some inp,
                          file_list := add_file ''input'' (add_file ''input.json'' (file_list sim))\<rparr>)))"

text \<open>\<^verbatim>\<open>Input.modify_input\<close>, which is all \<^verbatim>\<open>Simulation.input_file\<close> calls: the entries of
  the argument are stored in order, then the input is written.\<close>

definition modify_input :: "(string \<times> string) list \<Rightarrow> simulation \<Rightarrow> py_error option \<times> simulation" where
  "modify_input parameters sim =
     write_input (sim\<lparr>input := fold (\<lambda>(k, v) m. m(k \<mapsto> v)) parameters (input sim)\<rparr>)"

definition input_file :: "(string \<times> string) list \<Rightarrow> simulation \<Rightarrow> py_error option \<times> simulation" where
  "input_file parameters sim = modify_input parameters sim"

text \<open>
  The external engine (\<^verbatim>\<open>oxpy.OxpyManager.run_complete\<close>) and the built-in \<^verbatim>\<open>float\<close> are
  parameters of the model. The engine is given the persisted parameters: \<open>engine_err\<close> is the
  text it prints on standard error (or the exception it raises), \<open>engine_writes\<close> the names of
  the files it creates or rewrites in the job directory; it removes none. \<open>py_float\<close> reads a
  token as a number; a binary64 value is taken as the rational it denotes and
  \<^verbatim>\<open>3 * sim_mem\<close> as the exact product.
\<close>

record env =
  engine_err :: "params \<Rightarrow> py_error + string"
  engine_writes :: "params \<Rightarrow> string list"
  py_float :: "string \<Rightarrow> py_error + rat"

definition add_files :: "string list \<Rightarrow> string list \<Rightarrow> string list" where
  "add_files ws fs = fold add_file ws fs"

text \<open>\<^verbatim>\<open>SimFiles.parse_current_files\<close>, as far as \<^verbatim>\<open>last_conf\<close> goes.\<close>

definition parse_current_files :: "simulation \<Rightarrow> simulation" where
  "parse_current_files sim =
     (if ''last_conf.dat'' \<in> set (file_list sim)
      then sim\<lparr>last_conf := Some (sim_dir sim @ ''/last_conf.dat'')\<rparr> else sim)"

text \<open>
  \<^verbatim>\<open>OxpyRun.run(subprocess=False, ...)\<close>, that is \<^verbatim>\<open>run_complete\<close> in the calling process
  with \<^verbatim>\<open>steps=None\<close> and \<^verbatim>\<open>continue_run=False\<close>; the flag is \<^verbatim>\<open>log\<close>.
\<close>

definition run_complete :: "env \<Rightarrow> bool \<Rightarrow> simulation \<Rightarrow> py_error option \<times> simulation" where
  "run_complete E log_flag sim =
     (case input_json sim of
        None \<Rightarrow> (Some FileNotFoundError, sim)
      | Some my_input \<Rightarrow>
          (case engine_err E my_input of
             Inl e \<Rightarrow> (Some e, sim)
           | Inr err \<Rightarrow>
               (let fs = add_files (engine_writes E my_input) (file_list sim);
                    fs' = (if log_flag then add_file ''log.log'' fs else fs)
                in (None, parse_current_files (sim\<lparr>file_list := fs', sim_output_err := err\<rparr>)))))"

section \<open>Memory Probe: \<^verbatim>\<open>SimulationManager.get_sim_mem\<close>\<close>

text \<open>The dry run: the statements of \<^verbatim>\<open>get_sim_mem\<close> up to the restoring
  \<^verbatim>\<open>sim.input_file\<close>.\<close>

definition probe_run :: "env \<Rightarrow> simulation \<Rightarrow> py_error option \<times> simulation" where
  "probe_run E sim =
     (case input sim ''steps'' of
        None \<Rightarrow> (Some KeyError, sim)
      | Some steps \<Rightarrow>
     (case input sim ''lastconf_file'' of
        None \<Rightarrow> (Some KeyError, sim)
      | Some last_conf_file \<Rightarrow>
     (case input_file [(''lastconf_file'', ''temp''), (''steps'', ''0'')] sim of
        (Some e, s1) \<Rightarrow> (Some e, s1)
      | (None, s1) \<Rightarrow>
     (case run_complete E False s1 of
        (Some e, s2) \<Rightarrow> (Some e, s2)
      | (None, s2) \<Rightarrow>
          input_file [(''lastconf_file'', last_conf_file), (''steps'', steps)] s2))))"

text \<open>The extraction: the statements from \<^verbatim>\<open>err_split = ...\<close> to the \<^verbatim>\<open>return\<close>.\<close>

definition probe_extract :: "env \<Rightarrow> simulation \<Rightarrow> (py_error + rat) \<times> simulation" where
  "probe_extract E sim =
     (let err_split = py_split (sim_output_err sim) in
      case py_index err_split ''memory:'' of
        Inl e \<Rightarrow> (Inl e, sim)
      | Inr mem \<Rightarrow>
          if mem + 1 < length err_split then
            (let sim_mem = err_split ! (mem + 1) in
             case os_remove ''temp'' (file_list sim) of
               Inl e \<Rightarrow> (Inl e, sim)
             | Inr fs \<Rightarrow>
                 (case py_float E sim_mem of
                    Inl e \<Rightarrow> (Inl e, sim\<lparr>file_list := fs\<rparr>)
                  | Inr v \<Rightarrow> (Inr v, sim\<lparr>file_list := fs\<rparr>)))
          else (Inl IndexError, sim))"

definition get_sim_mem :: "env \<Rightarrow> simulation \<Rightarrow> (py_error + rat) \<times> simulation" where
  "get_sim_mem E sim =
     (case probe_run E sim of
        (Some e, s) \<Rightarrow> (Inl e, s)
      | (None, s) \<Rightarrow> probe_extract E s)"

section \<open>Queues of \<^verbatim>\<open>multiprocessing.Manager()\<close>\<close>

text \<open>
  \<^verbatim>\<open>manager.Queue(maxsize)\<close> is a FIFO queue. As in Python's \<^verbatim>\<open>queue.Queue\<close>, the bound
  applies only when \<^verbatim>\<open>maxsize > 0\<close>; with \<^verbatim>\<open>maxsize <= 0\<close> the queue is unbounded.
  \<^verbatim>\<open>put\<close> blocks while the queue is full and \<^verbatim>\<open>get\<close> blocks while it is empty: a
  blocked call is the result \<open>None\<close>, which disables the caller's step.
\<close>

record 'a pyqueue =
  maxsize :: int
  items :: "'a list"

definition new_queue :: "int \<Rightarrow> 'a pyqueue" where
  "new_queue n = \<lparr>maxsize = n, items = []\<rparr>"

definition q_full :: "'a pyqueue \<Rightarrow> bool" where
  "q_full q = (0 < maxsize q \<and> maxsize q \<le> int (length (items q)))"

definition q_empty :: "'a pyqueue \<Rightarrow> bool" where
  "q_empty q = (items q = [])"

definition q_put :: "'a \<Rightarrow> 'a pyqueue \<Rightarrow> 'a pyqueue option" where
  "q_put x q = (if q_full q then None else Some (q\<lparr>items := items q @ [x]\<rparr>))"

definition q_get :: "'a pyqueue \<Rightarrow> ('a \<times> 'a pyqueue) option" where
  "q_get q = (case items q of [] \<Rightarrow> None | x # xs \<Rightarrow> Some (x, q\<lparr>items := xs\<rparr>))"

section \<open>The scheduling core: \<^verbatim>\<open>SimulationManager\<close>\<close>

text \<open>
  The controller (\<^verbatim>\<open>worker_manager\<close>) and the workers (\<^verbatim>\<open>worker_job\<close>, one process per
  launched job) run in parallel and meet only at the three queues. The model is an
  interleaving of atomic steps: each step is one statement of the source that touches a
  queue, the device monitor or the engine, together with the local statements that follow it.
  A control point names the statement executed next.
\<close>

datatype wpc =
    W_probe             \<comment> \<open>\<^verbatim>\<open>sim_mem = self.get_sim_mem(sim, gpu_idx)\<close>\<close>
  | W_publish rat       \<comment> \<open>\<^verbatim>\<open>self.gpu_memory_queue.put(sim_mem)\<close>\<close>
  | W_run               \<comment> \<open>\<^verbatim>\<open>sim.oxpy_run.run(subprocess=False)\<close>\<close>
  | W_release           \<comment> \<open>\<^verbatim>\<open>self.process_queue.get()\<close>\<close>
  | W_done              \<comment> \<open>the process has returned\<close>
  | W_raised py_error   \<comment> \<open>the process has died of an uncaught exception\<close>

record worker =
  w_sim :: simulation
  w_pc :: wpc

datatype cpc =
    C_loop                      \<comment> \<open>\<^verbatim>\<open>while not self.sim_queue.empty()\<close>\<close>
  | C_put                       \<comment> \<open>\<^verbatim>\<open>self.process_queue.put(...)\<close>\<close>
  | C_get                       \<comment> \<open>\<^verbatim>\<open>sim = self.sim_queue.get()\<close>\<close>
  | C_query simulation          \<comment> \<open>\<^verbatim>\<open>free_gpu_memory, gpu_idx = self.gpu_resources()\<close>\<close>
  | C_spawn simulation int nat  \<comment> \<open>\<^verbatim>\<open>sim.input_file(...)\<close>, \<^verbatim>\<open>p.start()\<close>, \<^verbatim>\<open>append(p)\<close>\<close>
  | C_recv int nat              \<comment> \<open>\<^verbatim>\<open>sim_mem = self.gpu_memory_queue.get()\<close> and the first test\<close>
  | C_wait int nat rat          \<comment> \<open>the body of \<^verbatim>\<open>while wait_for_gpu_memory == True\<close>\<close>
  | C_drain                     \<comment> \<open>\<^verbatim>\<open>while not self.process_queue.empty(): sleep(1)\<close>\<close>
  | C_done                      \<comment> \<open>after \<^verbatim>\<open>print('All queued simulations finished')\<close>\<close>
  | C_raised py_error           \<comment> \<open>\<^verbatim>\<open>worker_manager\<close> has been left by an exception\<close>

datatype event = Slept nat | Printed string

record manager =
  n_processes :: int
  sim_queue :: "simulation pyqueue"
  process_queue :: "string pyqueue"
  gpu_memory_queue :: "rat pyqueue"
  worker_process_list :: "worker list"
  pc :: cpc
  trace :: "event list"

text \<open>\<^verbatim>\<open>SimulationManager.__init__\<close>, with the controller about to start.\<close>

definition init :: "int \<Rightarrow> manager" where
  "init n =
     \<lparr>n_processes = n,
      sim_queue = new_queue 0,
      process_queue = new_queue n,
      gpu_memory_queue = new_queue 1,
      worker_process_list = [],
      pc = C_loop,
      trace = []\<rparr>"

text \<open>\<^verbatim>\<open>str(n)\<close> for a list index.\<close>

fun str_nat :: "nat \<Rightarrow> string" where
  "str_nat n =
     (if n < 10 then [char_of (48 + n)]
      else str_nat (n div 10) @ [char_of (48 + n mod 10)])"

declare str_nat.simps [simp del]

text \<open>
  \<^verbatim>\<open>queue_sim\<close>. The part before the \<^verbatim>\<open>put\<close> touches the job only; reading the
  attribute \<^verbatim>\<open>sim.sim_files.last_conf\<close> fails when it was never set.
\<close>

definition prepare_sim :: "simulation \<Rightarrow> bool \<Rightarrow> py_error + simulation" where
  "prepare_sim sim continue_run =
     (if continue_run then
        (case last_conf sim of
           None \<Rightarrow> Inl AttributeError
         | Some lc \<Rightarrow>
             (case input_file [(''conf_file'', lc), (''refresh_vel'', ''0''),
                               (''restart_step_counter'', ''0'')] sim of
                (Some e, _) \<Rightarrow> Inl e
              | (None, sim') \<Rightarrow> Inr sim'))
      else Inr sim)"

definition queue_sim :: "simulation \<Rightarrow> bool \<Rightarrow> manager \<Rightarrow> manager option" where
  "queue_sim sim continue_run s =
     (case prepare_sim sim continue_run of
        Inl e \<Rightarrow> Some s
      | Inr sim' \<Rightarrow>
          (case q_put sim' (sim_queue s) of
             None \<Rightarrow> None
           | Some q \<Rightarrow> Some (s\<lparr>sim_queue := q\<rparr>)))"

text \<open>
  One step of \<^verbatim>\<open>worker_manager\<close>. The argument is what the device query command returns
  if this step runs it. An exception leaves \<^verbatim>\<open>worker_manager\<close> for good: the source has no
  handler around any of its statements.
\<close>

definition worker_manager :: "cmd_result \<Rightarrow> manager \<Rightarrow> manager option" where
  "worker_manager r s =
     (case pc s of
        C_loop \<Rightarrow> Some (s\<lparr>pc := (if q_empty (sim_queue s) then C_drain else C_put)\<rparr>)
      | C_put \<Rightarrow>
          (case q_put ''Simulation worker finished'' (process_queue s) of
             None \<Rightarrow> None
           | Some q \<Rightarrow> Some (s\<lparr>process_queue := q, pc := C_get\<rparr>))
      | C_get \<Rightarrow>
          (case q_get (sim_queue s) of
             None \<Rightarrow> None
           | Some (sim, q) \<Rightarrow> Some (s\<lparr>sim_queue := q, pc := C_query sim\<rparr>))
      | C_query sim \<Rightarrow>
          (case gpu_resources r of
             Inl e \<Rightarrow> Some (s\<lparr>pc := C_raised e\<rparr>)
           | Inr (free_gpu_memory, gpu_idx) \<Rightarrow> Some (s\<lparr>pc := C_spawn sim free_gpu_memory gpu_idx\<rparr>))
      | C_spawn sim free_gpu_memory gpu_idx \<Rightarrow>
          (case input_file [(''CUDA_device'', str_nat gpu_idx)] sim of
             (Some e, _) \<Rightarrow> Some (s\<lparr>pc := C_raised e\<rparr>)
           | (None, sim') \<Rightarrow>
               Some (s\<lparr>worker_process_list :=
                          worker_process_list s @ [\<lparr>w_sim = sim', w_pc = W_probe\<rparr>],
                        pc := C_recv free_gpu_memory gpu_idx\<rparr>))
      | C_recv free_gpu_memory gpu_idx \<Rightarrow>
          (case q_get (gpu_memory_queue s) of
             None \<Rightarrow> None
           | Some (sim_mem, q) \<Rightarrow>
               Some (s\<lparr>gpu_memory_queue := q,
                        pc := (if of_int free_gpu_memory < 3 * sim_mem
                               then C_wait free_gpu_memory gpu_idx sim_mem else C_loop)\<rparr>))
      | C_wait free_gpu_memory gpu_idx sim_mem \<Rightarrow>
          (if of_int free_gpu_memory < 3 * sim_mem then
             (case gpu_resources r of
                Inl e \<Rightarrow> Some (s\<lparr>pc := C_raised e\<rparr>)
              | Inr (free_gpu_memory', gpu_idx') \<Rightarrow>
                  Some (s\<lparr>pc := C_wait free_gpu_memory' gpu_idx' sim_mem,
                           trace := trace s @ [Slept 5]\<rparr>))
           else Some (s\<lparr>pc := C_loop, trace := trace s @ [Printed ''gpu memory freed'']\<rparr>))
      | C_drain \<Rightarrow>
          (if q_empty (process_queue s)
           then Some (s\<lparr>pc := C_done,
                         trace := trace s @ [Printed ''All queued simulations finished'']\<rparr>)
           else Some (s\<lparr>trace := trace s @ [Slept 1]\<rparr>))
      | C_done \<Rightarrow> None
      | C_raised e \<Rightarrow> None)"

text \<open>One step of the \<open>i\<close>-th \<^verbatim>\<open>worker_job\<close> process. It has no handler either.\<close>

definition set_worker :: "nat \<Rightarrow> worker \<Rightarrow> manager \<Rightarrow> manager" where
  "set_worker i w s = s\<lparr>worker_process_list := (worker_process_list s)[i := w]\<rparr>"

definition worker_job :: "env \<Rightarrow> nat \<Rightarrow> manager \<Rightarrow> manager option" where
  "worker_job E i s =
     (if i < length (worker_process_list s) then
        (let w = worker_process_list s ! i in
         case w_pc w of
           W_probe \<Rightarrow>
             (case get_sim_mem E (w_sim w) of
                (Inl e, sim') \<Rightarrow> Some (set_worker i \<lparr>w_sim = sim', w_pc = W_raised e\<rparr> s)
              | (Inr sim_mem, sim') \<Rightarrow>
                  Some (set_worker i \<lparr>w_sim = sim', w_pc = W_publish sim_mem\<rparr> s))
         | W_publish sim_mem \<Rightarrow>
             (case q_put sim_mem (gpu_memory_queue s) of
                None \<Rightarrow> None
              | Some q \<Rightarrow> Some (set_worker i (w\<lparr>w_pc := W_run\<rparr>) (s\<lparr>gpu_memory_queue := q\<rparr>)))
         | W_run \<Rightarrow>
             (case run_complete E True (w_sim w) of
                (Some e, sim') \<Rightarrow> Some (set_worker i \<lparr>w_sim = sim', w_pc = W_raised e\<rparr> s)
              | (None, sim') \<Rightarrow> Some (set_worker i \<lparr>w_sim = sim', w_pc = W_release\<rparr> s))
         | W_release \<Rightarrow>
             (case q_get (process_queue s) of
                None \<Rightarrow> None
              | Some (_, q) \<Rightarrow> Some (set_worker i (w\<lparr>w_pc := W_done\<rparr>) (s\<lparr>process_queue := q\<rparr>)))
         | W_done \<Rightarrow> None
         | W_raised e \<Rightarrow> None)
      else None)"

text \<open>
  The interleaving. An action is a call of \<^verbatim>\<open>queue_sim\<close> by the submitting caller, a
  step of the controller, or a step of one worker. \<open>step\<close> is \<open>None\<close> when the action cannot
  happen in the state (the process is blocked, has ended, or does not exist).
\<close>

datatype action =
    Queue_sim simulation bool
  | Manager cmd_result
  | Worker nat

fun step :: "env \<Rightarrow> action \<Rightarrow> manager \<Rightarrow> manager option" where
  "step E (Queue_sim sim continue_run) s = queue_sim sim continue_run s"
| "step E (Manager r) s = worker_manager r s"
| "step E (Worker i) s = worker_job E i s"

fun run :: "env \<Rightarrow> action list \<Rightarrow> manager \<Rightarrow> manager option" where
  "run E [] s = Some s"
| "run E (a # as) s = (case step E a s of None \<Rightarrow> None | Some s' \<Rightarrow> run E as s')"

section \<open>Observations on a manager state\<close>

text \<open>
  A launched worker holds its slot token until its \<^verbatim>\<open>process_queue.get()\<close> has returned; a
  worker killed by an exception never gives it back. A worker is running while its process
  is alive. \<open>outstanding\<close> is the number of tokens in \<^verbatim>\<open>process_queue\<close>.
\<close>

definition holds_slot :: "worker \<Rightarrow> bool" where
  "holds_slot w = (w_pc w \<noteq> W_done)"







definition is_raised :: "cpc \<Rightarrow> bool" where
  "is_raised c = (case c of C_raised _ \<Rightarrow> True | _ \<Rightarrow> False)"


text \<open>
  Jobs are named by their directory. \<open>launched\<close> lists the jobs of the workers in the order
  they were started, \<open>inflight\<close> the job the controller has taken from the queue and not yet
  started, \<open>queued\<close> the jobs still in \<^verbatim>\<open>sim_queue\<close>, and \<open>submitted\<close> the jobs that the
  \<^verbatim>\<open>queue_sim\<close> calls of an action sequence put into the queue, in order.
\<close>

definition inflight :: "cpc \<Rightarrow> string list" where
  "inflight c = (case c of C_query sim \<Rightarrow> [sim_dir sim] | C_spawn sim _ _ \<Rightarrow> [sim_dir sim] | _ \<Rightarrow> [])"

definition launched :: "manager \<Rightarrow> string list" where
  "launched s = map (\<lambda>w. sim_dir (w_sim w)) (worker_process_list s)"

definition queued :: "manager \<Rightarrow> string list" where
  "queued s = map sim_dir (items (sim_queue s))"

fun submitted :: "action list \<Rightarrow> string list" where
  "submitted [] = []"
| "submitted (Queue_sim sim continue_run # as) =
     (case prepare_sim sim continue_run of Inl e \<Rightarrow> [] | Inr sim' \<Rightarrow> [sim_dir sim']) @ submitted as"
| "submitted (Manager r # as) = submitted as"
| "submitted (Worker i # as) = submitted as"

definition fifo_inv :: "string list \<Rightarrow> manager \<Rightarrow> bool" where
  "fifo_inv H s =
     (\<exists>mid. launched s @ mid @ queued s = H \<and> (\<not> is_raised (pc s) \<longrightarrow> mid = inflight (pc s)))"




text \<open>The \<^verbatim>\<open>CUDA_device\<close> parameter of the \<open>i\<close>-th launched job.\<close>

definition assigned_device :: "nat \<Rightarrow> manager \<Rightarrow> string option" where
  "assigned_device i s = input (w_sim (worker_process_list s ! i)) ''CUDA_device''"

subsection \<open>The outcome of the dry run, in closed form\<close>

text \<open>
  The parameters the dry run is made with, the directory listing after it, and the job as
  \<^verbatim>\<open>get_sim_mem\<close> holds it once the parameters have been written back. They only name
  what \<^verbatim>\<open>probe_run\<close> computes, and are related to it by a lemma below.
\<close>

definition dry_input :: "params \<Rightarrow> string \<Rightarrow> string \<Rightarrow> params" where
  "dry_input p tp dat = p(''lastconf_file'' \<mapsto> ''temp'', ''steps'' \<mapsto> ''0'',
                          ''conf_file'' \<mapsto> dat, ''topology'' \<mapsto> tp)"

definition dry_files :: "env \<Rightarrow> params \<Rightarrow> string list \<Rightarrow> string list" where
  "dry_files E p fs = add_files (engine_writes E p) (add_file ''input'' (add_file ''input.json'' fs))"

definition probed :: "simulation \<Rightarrow> params \<Rightarrow> string list \<Rightarrow> string \<Rightarrow> params \<Rightarrow> simulation" where
  "probed sim p1 F err p3 =
     (parse_current_files (sim\<lparr>input := p1, input_json := Some p1, file_list := F,
                                sim_output_err := err\<rparr>))
       \<lparr>input := p3, input_json := Some p3,
        file_list := add_file ''input'' (add_file ''input.json'' F)\<rparr>"

section \<open>Concrete instances\<close>

text \<open>
  A small engine, a job and manager states on which the definitions can be evaluated.
  \<open>float_of_digits\<close> reads a token of decimal digits; the demonstration engine reports a
  footprint of 5000 and writes its last configuration, trajectory and energy files;
  the quiet engine prints no memory line.
\<close>

definition float_of_digits :: "string \<Rightarrow> py_error + rat" where
  "float_of_digits s =
     (case parse_digits False 0 s of None \<Rightarrow> Inl ValueError | Some n \<Rightarrow> Inr (of_nat n))"

definition demo_writes :: "params \<Rightarrow> string list" where
  "demo_writes p =
     (case p ''lastconf_file'' of None \<Rightarrow> [] | Some f \<Rightarrow> [f]) @ [''trajectory.dat'', ''energy.dat'']"

definition demo_env :: env where
  "demo_env = \<lparr>engine_err = (\<lambda>p. Inr ''INFO: Allocated CUDA memory: 5000 MBs''),
               engine_writes = demo_writes, py_float = float_of_digits\<rparr>"

definition quiet_env :: env where
  "quiet_env = \<lparr>engine_err = (\<lambda>p. Inr ''INFO: simulation finished''),
                engine_writes = demo_writes, py_float = float_of_digits\<rparr>"

definition demo_input :: params where
  "demo_input = [''steps'' \<mapsto> ''1e6'', ''lastconf_file'' \<mapsto> ''last_conf.dat'']"

definition demo_sim :: simulation where
  "demo_sim = \<lparr>sim_dir = ''/sims/job1'', input = demo_input, input_json = Some demo_input,
               file_list = [''init.dat'', ''sys.top'', ''input.json'', ''input''],
               last_conf = None, sim_output_err = []\<rparr>"

text \<open>A manager of capacity 2 whose only worker is about to probe \<open>demo_sim\<close>.\<close>

definition demo_probing :: manager where
  "demo_probing =
     \<lparr>n_processes = 2,
      sim_queue = new_queue 0,
      process_queue = \<lparr>maxsize = 2, items = [''Simulation worker finished'']\<rparr>,
      gpu_memory_queue = new_queue 1,
      worker_process_list = [\<lparr>w_sim = demo_sim, w_pc = W_probe\<rparr>],
      pc = C_recv 9000 0,
      trace = []\<rparr>"

text \<open>Device listings with one device of 9000 or 16000 free units, and with two devices.\<close>

definition demo_query :: cmd_result where
  "demo_query = Exited 0 (''memory.free [MiB]'' @ [CHR 0x0A] @ ''9000 MiB'' @ [CHR 0x0A])"

definition plenty_query :: cmd_result where
  "plenty_query = Exited 0 (''memory.free [MiB]'' @ [CHR 0x0A] @ ''16000 MiB'' @ [CHR 0x0A])"

definition two_gpu_query :: cmd_result where
  "two_gpu_query = Exited 0 (''memory.free [MiB]'' @ [CHR 0x0A] @ ''100 MiB'' @ [CHR 0x0A]
                              @ ''16000 MiB'' @ [CHR 0x0A])"

text \<open>A second job, and action sequences: one job admitted; two jobs submitted and admitted
  one after the other; one job run to the drain loop.\<close>

definition demo_sim2 :: simulation where
  "demo_sim2 = demo_sim\<lparr>sim_dir := ''/sims/job2''\<rparr>"


definition admit_two :: "action list" where
  "admit_two =
     [Queue_sim demo_sim False, Queue_sim demo_sim2 False,
      Manager plenty_query, Manager plenty_query, Manager plenty_query, Manager plenty_query,
      Manager plenty_query, Worker 0, Worker 0, Manager plenty_query,
      Manager plenty_query, Manager plenty_query, Manager plenty_query, Manager plenty_query,
      Manager plenty_query]"


text \<open>
  Manager states of capacity 2 with one launched job bound to device 0: in the wait loop with
  a reading of 9000 for a sample of 5000, and just before that sample is received. Two more
  states with no worker yet: about to query the devices, and about to start the worker.
\<close>

definition demo_waiting :: manager where
  "demo_waiting =
     \<lparr>n_processes = 2,
      sim_queue = new_queue 0,
      process_queue = \<lparr>maxsize = 2, items = [''Simulation worker finished'']\<rparr>,
      gpu_memory_queue = new_queue 1,
      worker_process_list =
        [\<lparr>w_sim = demo_sim\<lparr>input := demo_input(''CUDA_device'' \<mapsto> ''0'')\<rparr>, w_pc = W_run\<rparr>],
      pc = C_wait 9000 0 5000,
      trace = []\<rparr>"


definition demo_querying :: manager where
  "demo_querying = demo_probing\<lparr>worker_process_list := [], pc := C_query demo_sim\<rparr>"

definition demo_spawning :: manager where
  "demo_spawning = demo_probing\<lparr>worker_process_list := [], pc := C_spawn demo_sim 9000 0\<rparr>"

section \<open>Device Monitor: properties\<close>

lemma fold_max_Max: "fold max xs (x::int) = Max (set (x # xs))"
proof (induction xs arbitrary: x)
  case (Cons y ys)
  from Cons.IH [of "max y x"] show ?case
    by (cases ys) (simp_all add: max.commute max.left_commute max.assoc)
qed simp

lemma py_index_first:
  "v \<in> set xs \<Longrightarrow>
   \<exists>i. py_index xs v = Inr i \<and> i < length xs \<and> xs ! i = v \<and> (\<forall>j<i. xs ! j \<noteq> v)"
  by (induction xs) (auto simp: less_Suc_eq_0_disj)

lemma most_free_correct:
  assumes "ms \<noteq> []"
  shows "\<exists>i. most_free ms = Inr (Max (set ms), i) \<and> i < length ms \<and> ms ! i = Max (set ms)
            \<and> (\<forall>j<i. ms ! j \<noteq> Max (set ms))"
proof -
  have "Max (set ms) \<in> set ms" using assms by (intro Max_in) simp_all
  from py_index_first [OF this] assms show ?thesis
    by (cases ms) (auto simp: most_free_def fold_max_Max simp del: set_simps)
qed

text \<open>
  C5. Whenever the device query command succeeds and its listing, without the header line,
  parses to the per-device readings \<open>ms\<close> (one per device, at least one device),
  \<^verbatim>\<open>gpu_resources\<close> returns the largest reading together with the index of a device
  that holds it; the index is the first such device.
\<close>

theorem gpu_resources_most_free:
  assumes "avalible_memory out = Inr ms" and "ms \<noteq> []"
  shows "\<exists>i. gpu_resources (Exited 0 out) = Inr (Max (set ms), i) \<and> i < length ms
            \<and> ms ! i = Max (set ms) \<and> (\<forall>j<i. ms ! j \<noteq> Max (set ms))"
  using most_free_correct [OF assms(2)] assms(1)
  by (simp add: gpu_resources_def check_output_def)

lemma avalible_memory_example:
  "avalible_memory (''memory.free [MiB]'' @ [CHR 0x0A] @ ''11178 MiB'' @ [CHR 0x0A]
                     @ ''24000 MiB'' @ [CHR 0x0A] @ ''300 MiB'' @ [CHR 0x0A])
   = Inr [11178, 24000, 300]"
  by (simp add: avalible_memory_def output_to_list_def decode_ascii_def parse_line_def
        py_split_def is_space_def py_int_def is_digit_def digit_val_def)

theorem gpu_resources_most_free_witness:
  "avalible_memory (''memory.free [MiB]'' @ [CHR 0x0A] @ ''11178 MiB'' @ [CHR 0x0A]
                     @ ''24000 MiB'' @ [CHR 0x0A] @ ''300 MiB'' @ [CHR 0x0A])
     = Inr [11178, 24000, 300]
   \<and> [11178, 24000, 300 :: int] \<noteq> []
   \<and> gpu_resources (Exited 0 (''memory.free [MiB]'' @ [CHR 0x0A] @ ''11178 MiB'' @ [CHR 0x0A]
                     @ ''24000 MiB'' @ [CHR 0x0A] @ ''300 MiB'' @ [CHR 0x0A]))
     = Inr (24000, 1)"
proof -
  let ?out = "''memory.free [MiB]'' @ [CHR 0x0A] @ ''11178 MiB'' @ [CHR 0x0A]
                @ ''24000 MiB'' @ [CHR 0x0A] @ ''300 MiB'' @ [CHR 0x0A]"
  let ?ms = "[11178, 24000, 300 :: int]"
  have ne: "?ms \<noteq> []" by simp
  have mx: "Max (set ?ms) = 24000" by simp
  from gpu_resources_most_free [OF avalible_memory_example ne]
  obtain i where i: "gpu_resources (Exited 0 ?out) = Inr (Max (set ?ms), i)"
    "i < length ?ms" "?ms ! i = Max (set ?ms)"
    by blast
  have "i = 0 \<or> i = 1 \<or> i = 2" using i(2) by auto
  with i(3) have "i = 1" unfolding mx by auto
  with i(1) show ?thesis unfolding mx using avalible_memory_example by simp
qed

text \<open>With no device line in the listing there is no maximum: \<^verbatim>\<open>max\<close> raises.\<close>

lemma most_free_empty: "most_free [] = Inl ValueError"
  by (simp add: most_free_def)

section \<open>Jobs and the Memory Probe: properties\<close>

lemma input_file_ok:
  assumes "input_file ps sim = (None, sim')"
  shows "\<exists>tp dat. get_last_conf_top (file_list sim) = Inr (tp, dat)
          \<and> sim' = sim\<lparr>input := (fold (\<lambda>(k, v) m. m(k \<mapsto> v)) ps (input sim))(''conf_file'' \<mapsto> dat, ''topology'' \<mapsto> tp),
                        input_json := Some ((fold (\<lambda>(k, v) m. m(k \<mapsto> v)) ps (input sim))(''conf_file'' \<mapsto> dat, ''topology'' \<mapsto> tp)),
                        file_list := add_file ''input'' (add_file ''input.json'' (file_list sim))\<rparr>"
  using assms
  by (auto simp: input_file_def modify_input_def write_input_def Let_def split: sum.splits)

lemma fold_upd_other:
  "k \<notin> fst ` set ps \<Longrightarrow> fold (\<lambda>(k, v) m. m(k \<mapsto> v)) ps m k = m k"
  by (induction ps arbitrary: m) auto

lemma input_file_keeps:
  assumes "input_file ps sim = (r, sim')"
  shows "sim_dir sim' = sim_dir sim
       \<and> (''CUDA_device'' \<notin> fst ` set ps \<longrightarrow> input sim' ''CUDA_device'' = input sim ''CUDA_device'')"
  using assms
  by (auto simp: input_file_def modify_input_def write_input_def Let_def fold_upd_other
           split: sum.splits prod.splits)

lemma run_complete_keeps:
  assumes "run_complete E lg sim = (r, sim')"
  shows "sim_dir sim' = sim_dir sim \<and> input sim' = input sim \<and> input_json sim' = input_json sim"
  using assms
  by (auto simp: run_complete_def parse_current_files_def Let_def split: option.splits sum.splits)

lemma probe_extract_keeps:
  assumes "probe_extract E sim = (r, sim')"
  shows "sim_dir sim' = sim_dir sim \<and> input sim' = input sim \<and> input_json sim' = input_json sim"
  using assms
  by (auto simp: probe_extract_def Let_def split: sum.splits if_splits)

lemma probe_run_ok:
  assumes "probe_run E sim = (None, s3)"
  shows "\<exists>st lc s1 s2. input sim ''steps'' = Some st \<and> input sim ''lastconf_file'' = Some lc
          \<and> input_file [(''lastconf_file'', ''temp''), (''steps'', ''0'')] sim = (None, s1)
          \<and> run_complete E False s1 = (None, s2)
          \<and> input_file [(''lastconf_file'', lc), (''steps'', st)] s2 = (None, s3)"
  using assms by (auto simp: probe_run_def split: option.splits prod.splits)

lemma probe_run_restores:
  assumes "probe_run E sim = (None, s3)"
  shows "input s3 ''steps'' = input sim ''steps'' \<and> input s3 ''lastconf_file'' = input sim ''lastconf_file''
         \<and> input_json s3 = Some (input s3)"
proof -
  from probe_run_ok [OF assms] obtain st lc s1 s2 where
    k: "input sim ''steps'' = Some st" "input sim ''lastconf_file'' = Some lc"
    and a: "input_file [(''lastconf_file'', ''temp''), (''steps'', ''0'')] sim = (None, s1)"
    and b: "run_complete E False s1 = (None, s2)"
    and c: "input_file [(''lastconf_file'', lc), (''steps'', st)] s2 = (None, s3)"
    by blast
  from input_file_ok [OF c] k show ?thesis by auto
qed

lemma probe_run_keeps:
  assumes "probe_run E sim = (r, sim')"
  shows "sim_dir sim' = sim_dir sim \<and> input sim' ''CUDA_device'' = input sim ''CUDA_device''"
  using assms
  by (auto simp: probe_run_def split: option.splits prod.splits
           dest!: input_file_keeps run_complete_keeps)

lemma get_sim_mem_keeps:
  assumes "get_sim_mem E sim = (r, sim')"
  shows "sim_dir sim' = sim_dir sim \<and> input sim' ''CUDA_device'' = input sim ''CUDA_device''"
  using assms
  by (auto simp: get_sim_mem_def split: option.splits prod.splits
           dest!: probe_run_keeps probe_extract_keeps)

lemma py_index_absent: "v \<notin> set xs \<Longrightarrow> py_index xs v = Inl ValueError"
  by (induction xs) auto

lemma get_sim_mem_no_marker:
  assumes "probe_run E sim = (None, s3)" and "''memory:'' \<notin> set (py_split (sim_output_err s3))"
  shows "get_sim_mem E sim = (Inl ValueError, s3)"
  using assms by (simp add: get_sim_mem_def probe_extract_def py_index_absent)

lemma probe_run_iff:
  "probe_run E sim = (None, s3) \<longleftrightarrow>
     (\<exists>st lc tp dat err tp' dat'.
        input sim ''steps'' = Some st \<and> input sim ''lastconf_file'' = Some lc
      \<and> get_last_conf_top (file_list sim) = Inr (tp, dat)
      \<and> engine_err E (dry_input (input sim) tp dat) = Inr err
      \<and> get_last_conf_top (dry_files E (dry_input (input sim) tp dat) (file_list sim)) = Inr (tp', dat')
      \<and> s3 = probed sim (dry_input (input sim) tp dat)
                 (dry_files E (dry_input (input sim) tp dat) (file_list sim)) err
                 ((input sim)(''lastconf_file'' \<mapsto> lc, ''steps'' \<mapsto> st,
                              ''conf_file'' \<mapsto> dat', ''topology'' \<mapsto> tp')))"
  by (auto simp: probe_run_def input_file_def modify_input_def write_input_def run_complete_def
        dry_input_def dry_files_def probed_def Let_def parse_current_files_def
        split: option.splits sum.splits prod.splits if_splits)

lemma probe_extract_iff:
  "probe_extract E s = (Inr m, s') \<longleftrightarrow>
     (\<exists>mem. py_index (py_split (sim_output_err s)) ''memory:'' = Inr mem
          \<and> mem + 1 < length (py_split (sim_output_err s))
          \<and> ''temp'' \<in> set (file_list s)
          \<and> py_float E (py_split (sim_output_err s) ! (mem + 1)) = Inr m
          \<and> s' = s\<lparr>file_list := filter (\<lambda>g. g \<noteq> ''temp'') (file_list s)\<rparr>)"
  by (auto simp: probe_extract_def Let_def os_remove_def split: sum.splits if_splits)

lemma get_sim_mem_ok:
  "get_sim_mem E sim = (Inr m, sim') \<longleftrightarrow>
     (\<exists>s3. probe_run E sim = (None, s3) \<and> probe_extract E s3 = (Inr m, sim'))"
  by (auto simp: get_sim_mem_def split: prod.splits option.splits)

lemma set_add_file: "set (add_file f fs) = insert f (set fs)"
  by (auto simp: add_file_def)

lemma set_add_files: "set (add_files ws fs) = set ws \<union> set fs"
  unfolding add_files_def by (induction ws arbitrary: fs) (auto simp: set_add_file)

lemma add_files_subset: "set ws \<subseteq> set fs \<Longrightarrow> add_files ws fs = fs"
  unfolding add_files_def by (induction ws arbitrary: fs) (auto simp: add_file_def)

lemma add_files_one_new:
  "set ws \<subseteq> insert t (set fs) \<Longrightarrow> t \<in> set ws \<Longrightarrow> t \<notin> set fs \<Longrightarrow> add_files ws fs = fs @ [t]"
proof (induction ws arbitrary: fs)
  case (Cons w ws)
  show ?case
  proof (cases "w = t")
    case True
    with Cons.prems add_files_subset [of ws "fs @ [t]"] show ?thesis
      by (simp add: add_files_def add_file_def)
  next
    case False
    with Cons.prems Cons.IH [of fs] show ?thesis
      by (simp add: add_files_def add_file_def)
  qed
qed simp

lemma glct_cong:
  "filter (endswith ''.top'') a = filter (endswith ''.top'') b \<Longrightarrow>
   filter (startswith ''last_conf'') a = filter (startswith ''last_conf'') b \<Longrightarrow>
   filter is_conf_dat a = filter is_conf_dat b \<Longrightarrow>
   get_last_conf_top a = get_last_conf_top b"
  by (simp add: get_last_conf_top_def cong: list.case_cong)

lemma not_candidate_names:
  "not_candidate ''temp''" "not_candidate ''input''" "not_candidate ''input.json''"
  by (simp_all add: not_candidate_def endswith_def startswith_def is_conf_dat_def)

lemma filter_remove: "\<not> P f \<Longrightarrow> filter P (filter (\<lambda>g. g \<noteq> f) fs) = filter P fs"
  by (induction fs) auto

lemma glct_not_candidate:
  assumes "not_candidate f"
  shows "get_last_conf_top (add_file f fs) = get_last_conf_top fs"
    and "get_last_conf_top (filter (\<lambda>g. g \<noteq> f) fs) = get_last_conf_top fs"
    and "get_last_conf_top (fs @ [f]) = get_last_conf_top fs"
  using assms
  by (auto intro!: glct_cong simp: not_candidate_def add_file_def filter_remove simp del: filter_filter)

lemmas probe_eval = probe_run_def input_file_def modify_input_def write_input_def
  get_last_conf_top_def endswith_def startswith_def is_conf_dat_def add_file_def add_files_def
  run_complete_def parse_current_files_def demo_sim_def demo_input_def demo_writes_def Let_def

lemma quiet_probe_run: "fst (probe_run quiet_env demo_sim) = None"
  by (simp add: probe_eval quiet_env_def)

lemma quiet_probe_err:
  "sim_output_err (snd (probe_run quiet_env demo_sim)) = ''INFO: simulation finished''"
  by (simp add: probe_eval quiet_env_def)

lemma quiet_probe_tokens:
  "py_split ''INFO: simulation finished'' = [''INFO:'', ''simulation'', ''finished'']"
  by (simp add: py_split_def is_space_def)

text \<open>
  C10. When the probe has run the engine and restored the parameters, and the diagnostics do
  not contain \<^verbatim>\<open>memory:\<close>, the \<^verbatim>\<open>ValueError\<close> leaves the job with its step count and
  last-configuration file name as they were before the probe, in memory and in
  \<^verbatim>\<open>input.json\<close>; and if the engine writes the last-configuration file it is told to write,
  the file \<^verbatim>\<open>temp\<close> is still in the job directory, because \<^verbatim>\<open>os.remove\<close> comes after the
  failing statement.
\<close>

theorem probe_parse_failure_state:
  assumes "probe_run E sim = (None, s3)"
    and "''memory:'' \<notin> set (py_split (sim_output_err s3))"
    and "\<And>p. p ''lastconf_file'' = Some ''temp'' \<Longrightarrow> ''temp'' \<in> set (engine_writes E p)"
  shows "get_sim_mem E sim = (Inl ValueError, s3)
       \<and> input s3 ''steps'' = input sim ''steps''
       \<and> input s3 ''lastconf_file'' = input sim ''lastconf_file''
       \<and> input_json s3 = Some (input s3)
       \<and> ''temp'' \<in> set (file_list s3)"
proof -
  from assms(1) obtain tp dat where
    "file_list s3 = add_file ''input'' (add_file ''input.json''
                      (dry_files E (dry_input (input sim) tp dat) (file_list sim)))"
    by (auto simp: probe_run_iff probed_def)
  moreover have "''temp'' \<in> set (engine_writes E (dry_input (input sim) tp dat))"
    by (rule assms(3)) (simp add: dry_input_def)
  ultimately have "''temp'' \<in> set (file_list s3)"
    by (simp add: dry_files_def set_add_file set_add_files)
  with get_sim_mem_no_marker [OF assms(1,2)] probe_run_restores [OF assms(1)]
  show ?thesis by simp
qed

lemma quiet_writes_temp:
  "p ''lastconf_file'' = Some ''temp'' \<Longrightarrow> ''temp'' \<in> set (engine_writes quiet_env p)"
  by (simp add: quiet_env_def demo_writes_def)

theorem probe_parse_failure_state_witness:
  "get_sim_mem quiet_env demo_sim = (Inl ValueError, snd (probe_run quiet_env demo_sim))
   \<and> input (snd (probe_run quiet_env demo_sim)) ''steps'' = Some ''1e6''
   \<and> input (snd (probe_run quiet_env demo_sim)) ''lastconf_file'' = Some ''last_conf.dat''
   \<and> ''temp'' \<in> set (file_list (snd (probe_run quiet_env demo_sim)))
   \<and> ''temp'' \<notin> set (file_list demo_sim)"
proof -
  let ?s3 = "snd (probe_run quiet_env demo_sim)"
  have c: "probe_run quiet_env demo_sim = (None, ?s3)"
    using quiet_probe_run by (simp add: prod_eq_iff)
  have d: "''memory:'' \<notin> set (py_split (sim_output_err ?s3))"
    by (simp add: quiet_probe_err quiet_probe_tokens)
  from probe_parse_failure_state [OF c d quiet_writes_temp]
  show ?thesis by (simp add: demo_sim_def demo_input_def)
qed

lemma get_sim_mem_second:
  assumes g: "get_sim_mem E sim = (Inr m, sim')"
    and nt: "''temp'' \<notin> set (file_list sim)"
    and H: "get_last_conf_top (file_list sim') = get_last_conf_top (file_list sim)"
  shows "get_sim_mem E sim' = (Inr m, sim')"
proof -
  from g obtain s3 where pr: "probe_run E sim = (None, s3)"
    and pe: "probe_extract E s3 = (Inr m, sim')"
    by (auto simp: get_sim_mem_ok)
  from pr obtain st lc tp dat err tp' dat' where
    k: "input sim ''steps'' = Some st" "input sim ''lastconf_file'' = Some lc"
    and g0: "get_last_conf_top (file_list sim) = Inr (tp, dat)"
    and ee: "engine_err E (dry_input (input sim) tp dat) = Inr err"
    and gF: "get_last_conf_top (dry_files E (dry_input (input sim) tp dat) (file_list sim))
             = Inr (tp', dat')"
    and s3: "s3 = probed sim (dry_input (input sim) tp dat)
                 (dry_files E (dry_input (input sim) tp dat) (file_list sim)) err
                 ((input sim)(''lastconf_file'' \<mapsto> lc, ''steps'' \<mapsto> st,
                              ''conf_file'' \<mapsto> dat', ''topology'' \<mapsto> tp'))"
    unfolding probe_run_iff by blast
  define p1 where "p1 = dry_input (input sim) tp dat"
  define W where "W = engine_writes E p1"
  define F where "F = dry_files E p1 (file_list sim)"
  define L where "L = filter (\<lambda>g. g \<noteq> ''temp'') (file_list s3)"
  note ee = ee [folded p1_def] and gF = gF [folded p1_def, folded F_def]
    and s3 = s3 [folded p1_def, folded F_def]
  from pe obtain mem where
    x: "py_index (py_split (sim_output_err s3)) ''memory:'' = Inr mem"
       "mem + 1 < length (py_split (sim_output_err s3))"
       "py_float E (py_split (sim_output_err s3) ! (mem + 1)) = Inr m"
    and x3: "''temp'' \<in> set (file_list s3)"
    and x5: "sim' = s3\<lparr>file_list := L\<rparr>"
    unfolding probe_extract_iff L_def by blast
  have f3: "file_list s3 = add_file ''input'' (add_file ''input.json'' F)"
    and e3: "sim_output_err s3 = err"
    by (simp_all add: s3 probed_def parse_current_files_def)
  have setF: "set F = set W \<union> insert ''input'' (insert ''input.json'' (set (file_list sim)))"
    by (simp add: F_def W_def dry_files_def set_add_files set_add_file)
  have setL: "set L = insert ''input'' (insert ''input.json'' (set F)) - {''temp''}"
    by (auto simp: L_def f3 set_add_file)
  have tW: "''temp'' \<in> set W" using x3 nt by (auto simp: f3 set_add_file setF)
  have tL: "''temp'' \<notin> set L" by (simp add: setL)
  have WL: "set W \<subseteq> insert ''temp'' (set L)" unfolding setL setF by auto
  have addL: "add_file ''input'' (add_file ''input.json'' L) = L"
    by (simp add: add_file_def setL)
  have gL: "get_last_conf_top L = Inr (tp', dat')"
    unfolding L_def f3 by (simp add: glct_not_candidate not_candidate_names gF)
  with H g0 have tpd: "tp' = tp" "dat' = dat" by (simp_all add: x5)
  have fl: "file_list sim' = L" by (simp add: x5)
  have in': "input sim' = (input sim)(''lastconf_file'' \<mapsto> lc, ''steps'' \<mapsto> st,
                                      ''conf_file'' \<mapsto> dat, ''topology'' \<mapsto> tp)"
    by (simp add: x5 s3 probed_def tpd)
  have p1': "dry_input (input sim') tp dat = p1"
    unfolding in' p1_def dry_input_def by (rule ext) simp
  have dF: "dry_files E p1 L = L @ [''temp'']"
    unfolding dry_files_def addL W_def [symmetric] using WL tW tL by (rule add_files_one_new)
  have k': "input sim' ''steps'' = Some st" "input sim' ''lastconf_file'' = Some lc"
    by (simp_all add: in')
  have p3': "(input sim')(''lastconf_file'' \<mapsto> lc, ''steps'' \<mapsto> st,
                         ''conf_file'' \<mapsto> dat, ''topology'' \<mapsto> tp) = input sim'"
    unfolding in' by (rule ext) simp
  let ?s3 = "probed sim' p1 (L @ [''temp'']) err (input sim')"
  have "probe_run E sim' = (None, ?s3)"
    unfolding probe_run_iff
    by (rule exI [of _ st], rule exI [of _ lc], rule exI [of _ tp], rule exI [of _ dat],
        rule exI [of _ err], rule exI [of _ tp], rule exI [of _ dat])
       (simp add: fl p1' dF ee p3' gL tpd k' glct_not_candidate not_candidate_names)
  moreover have "probe_extract E ?s3 = (Inr m, ?s3\<lparr>file_list := L\<rparr>)"
    unfolding probe_extract_iff using x tL
    by (intro exI [of _ mem])
       (auto simp: probed_def parse_current_files_def e3 x5 add_file_def setL filter_id_conv)
  moreover have "?s3\<lparr>file_list := L\<rparr> = sim'"
    by (rule simulation.equality)
       (auto simp: probed_def parse_current_files_def x5 s3 tpd setL set_add_file)
  ultimately show ?thesis by (simp add: get_sim_mem_ok)
qed

text \<open>
  C4. A probe that returns a footprint leaves the step count and the last-configuration file
  name as they were, in memory and in \<^verbatim>\<open>input.json\<close>. If moreover the job directory had no
  file \<^verbatim>\<open>temp\<close> of its own and the files the engine left do not change which topology and
  configuration file the directory offers, a second probe of the job returns the same
  footprint and leaves the job exactly as the first probe left it.
\<close>

theorem get_sim_mem_idempotent:
  assumes "get_sim_mem E sim = (Inr m, sim')"
  shows "input sim' ''steps'' = input sim ''steps''
       \<and> input sim' ''lastconf_file'' = input sim ''lastconf_file''
       \<and> persisted sim' ''steps'' = input sim ''steps''
       \<and> persisted sim' ''lastconf_file'' = input sim ''lastconf_file''
       \<and> (input_json sim = Some (input sim) \<longrightarrow>
            persisted sim' ''steps'' = persisted sim ''steps''
          \<and> persisted sim' ''lastconf_file'' = persisted sim ''lastconf_file'')
       \<and> (''temp'' \<notin> set (file_list sim) \<longrightarrow>
          get_last_conf_top (file_list sim') = get_last_conf_top (file_list sim) \<longrightarrow>
            get_sim_mem E sim' = (Inr m, sim'))"
proof -
  from assms obtain s3 where pr: "probe_run E sim = (None, s3)"
    and "probe_extract E s3 = (Inr m, sim')"
    by (auto simp: get_sim_mem_ok)
  with probe_run_restores [OF pr] probe_extract_keeps [of E s3 "Inr m" sim']
  have "input sim' ''steps'' = input sim ''steps''"
    "input sim' ''lastconf_file'' = input sim ''lastconf_file''"
    "input_json sim' = Some (input sim')"
    by simp_all
  with get_sim_mem_second [OF assms] show ?thesis
    by (simp add: persisted_def)
qed

lemmas extract_eval = get_sim_mem_def probe_extract_def os_remove_def py_split_def is_space_def
  float_of_digits_def is_digit_def digit_val_def demo_env_def

lemma demo_probe_result: "fst (get_sim_mem demo_env demo_sim) = Inr 5000"
  by (simp add: extract_eval probe_eval)

lemma demo_probe_files:
  "file_list (snd (get_sim_mem demo_env demo_sim))
   = [''init.dat'', ''sys.top'', ''input.json'', ''input'', ''trajectory.dat'', ''energy.dat'']"
  by (simp add: extract_eval probe_eval)

theorem get_sim_mem_idempotent_witness:
  "get_sim_mem demo_env demo_sim = (Inr 5000, snd (get_sim_mem demo_env demo_sim))
   \<and> ''temp'' \<notin> set (file_list demo_sim)
   \<and> get_last_conf_top (file_list (snd (get_sim_mem demo_env demo_sim)))
       = get_last_conf_top (file_list demo_sim)
   \<and> get_sim_mem demo_env (snd (get_sim_mem demo_env demo_sim))
       = (Inr 5000, snd (get_sim_mem demo_env demo_sim))
   \<and> input (snd (get_sim_mem demo_env demo_sim)) ''steps'' = Some ''1e6''
   \<and> persisted (snd (get_sim_mem demo_env demo_sim)) ''lastconf_file'' = Some ''last_conf.dat''"
proof -
  let ?s = "snd (get_sim_mem demo_env demo_sim)"
  have g: "get_sim_mem demo_env demo_sim = (Inr 5000, ?s)"
    using demo_probe_result by (simp add: prod_eq_iff)
  have t: "''temp'' \<notin> set (file_list demo_sim)"
    by (simp add: demo_sim_def)
  have h: "get_last_conf_top (file_list ?s) = get_last_conf_top (file_list demo_sim)"
    unfolding demo_probe_files
    by (simp add: demo_sim_def get_last_conf_top_def endswith_def startswith_def is_conf_dat_def)
  from get_sim_mem_idempotent [OF g] t h g
  show ?thesis by (simp add: demo_sim_def demo_input_def)
qed

section \<open>The scheduling core: properties\<close>


lemma q_get_Some:
  "q_get q = Some (x, q') \<longleftrightarrow> (\<exists>xs. items q = x # xs \<and> q' = q\<lparr>items := xs\<rparr>)"
  by (auto simp: q_get_def split: list.splits)

lemma queue_sim_frame:
  assumes "queue_sim sim b s = Some s'"
  shows "worker_process_list s' = worker_process_list s \<and> pc s' = pc s \<and> trace s' = trace s
         \<and> process_queue s' = process_queue s \<and> gpu_memory_queue s' = gpu_memory_queue s
         \<and> n_processes s' = n_processes s"
  using assms by (auto simp: queue_sim_def split: sum.splits option.splits)

lemma worker_manager_frame:
  assumes "worker_manager r s = Some s'"
  shows "(worker_process_list s' = worker_process_list s
          \<or> (\<exists>sim f i w. pc s = C_spawn sim f i \<and> worker_process_list s' = worker_process_list s @ [w]))
         \<and> n_processes s' = n_processes s \<and> (\<forall>e. pc s \<noteq> C_raised e) \<and> pc s \<noteq> C_done"
  using assms
  by (cases "pc s";
      auto simp: worker_manager_def split: option.splits sum.splits prod.splits if_splits)

lemma worker_job_effect:
  assumes "worker_job E i s = Some s'"
  shows "i < length (worker_process_list s)
       \<and> (\<exists>w'. worker_process_list s' = (worker_process_list s)[i := w']
            \<and> sim_dir (w_sim w') = sim_dir (w_sim (worker_process_list s ! i))
            \<and> input (w_sim w') ''CUDA_device'' = input (w_sim (worker_process_list s ! i)) ''CUDA_device''
            \<and> ((holds_slot w' \<and> process_queue s' = process_queue s)
               \<or> (\<not> holds_slot w' \<and> (\<exists>x. q_get (process_queue s) = Some (x, process_queue s')))))
       \<and> holds_slot (worker_process_list s ! i)
       \<and> (\<forall>e. w_pc (worker_process_list s ! i) \<noteq> W_raised e)
       \<and> pc s' = pc s \<and> sim_queue s' = sim_queue s \<and> trace s' = trace s
       \<and> n_processes s' = n_processes s"
  using assms
  by (cases "w_pc (worker_process_list s ! i)";
      auto simp: worker_job_def set_worker_def Let_def holds_slot_def
           split: if_splits option.splits sum.splits prod.splits
           dest!: get_sim_mem_keeps run_complete_keeps)

lemma step_keeps_raised:
  assumes "step E a s = Some s'" and "i < length (worker_process_list s)"
    and "w_pc (worker_process_list s ! i) = W_raised e"
  shows "i < length (worker_process_list s') \<and> worker_process_list s' ! i = worker_process_list s ! i
         \<and> a \<noteq> Worker i"
proof (cases a)
  case (Queue_sim sim b)
  with assms queue_sim_frame [of sim b s s'] show ?thesis by simp
next
  case (Manager r)
  with assms worker_manager_frame [of r s s'] show ?thesis by (auto simp: nth_append)
next
  case (Worker j)
  with assms worker_job_effect [of E j s s'] show ?thesis by (cases "i = j") auto
qed

lemma run_keeps_raised:
  assumes "run E as s = Some s'" and "i < length (worker_process_list s)"
    and "w_pc (worker_process_list s ! i) = W_raised e"
  shows "i < length (worker_process_list s') \<and> worker_process_list s' ! i = worker_process_list s ! i
         \<and> Worker i \<notin> set as"
  using assms
proof (induction as arbitrary: s)
  case (Cons a as)
  from Cons.prems(1) obtain t where t: "step E a s = Some t" "run E as t = Some s'"
    by (auto split: option.splits)
  from step_keeps_raised [OF t(1) Cons.prems(2,3)] Cons.IH [OF t(2)] Cons.prems(3)
  show ?case by auto
qed simp

text \<open>
  C8. When the diagnostics of the probe's engine run do not contain the token
  \<^verbatim>\<open>memory:\<close>, \<^verbatim>\<open>get_sim_mem\<close> raises \<^verbatim>\<open>ValueError\<close>; the worker process that called it
  dies of that exception (nothing else in the manager changes), and in every continuation of
  the run this worker stays dead and takes no further step: nothing catches the error and
  nothing probes the job again.
\<close>

theorem probe_parse_failure_uncaught:
  assumes "i < length (worker_process_list s)"
    and "worker_process_list s ! i = \<lparr>w_sim = sim, w_pc = W_probe\<rparr>"
    and "probe_run E sim = (None, s3)"
    and "''memory:'' \<notin> set (py_split (sim_output_err s3))"
  shows "get_sim_mem E sim = (Inl ValueError, s3)
       \<and> step E (Worker i) s = Some (set_worker i \<lparr>w_sim = s3, w_pc = W_raised ValueError\<rparr> s)
       \<and> (\<forall>as s'. run E as (set_worker i \<lparr>w_sim = s3, w_pc = W_raised ValueError\<rparr> s) = Some s'
             \<longrightarrow> worker_process_list s' ! i = \<lparr>w_sim = s3, w_pc = W_raised ValueError\<rparr>
               \<and> Worker i \<notin> set as)"
proof -
  let ?t = "set_worker i \<lparr>w_sim = s3, w_pc = W_raised ValueError\<rparr> s"
  note g = get_sim_mem_no_marker [OF assms(3,4)]
  have st: "step E (Worker i) s = Some ?t"
    using assms(1,2) g by (simp add: worker_job_def)
  have t: "i < length (worker_process_list ?t)"
    "w_pc (worker_process_list ?t ! i) = W_raised ValueError"
    "worker_process_list ?t ! i = \<lparr>w_sim = s3, w_pc = W_raised ValueError\<rparr>"
    using assms(1) by (simp_all add: set_worker_def)
  show ?thesis
    using g st run_keeps_raised [OF _ t(1,2)] t(3) by simp
qed

theorem probe_parse_failure_uncaught_witness:
  "get_sim_mem quiet_env demo_sim = (Inl ValueError, snd (probe_run quiet_env demo_sim))
   \<and> step quiet_env (Worker 0) demo_probing
       = Some (set_worker 0 \<lparr>w_sim = snd (probe_run quiet_env demo_sim), w_pc = W_raised ValueError\<rparr>
                 demo_probing)
   \<and> step quiet_env (Worker 0)
       (set_worker 0 \<lparr>w_sim = snd (probe_run quiet_env demo_sim), w_pc = W_raised ValueError\<rparr>
          demo_probing) = None"
proof -
  let ?s3 = "snd (probe_run quiet_env demo_sim)"
  let ?t = "set_worker 0 \<lparr>w_sim = ?s3, w_pc = W_raised ValueError\<rparr> demo_probing"
  have a: "0 < length (worker_process_list demo_probing)"
    by (simp add: demo_probing_def)
  have b: "worker_process_list demo_probing ! 0 = \<lparr>w_sim = demo_sim, w_pc = W_probe\<rparr>"
    by (simp add: demo_probing_def)
  have c: "probe_run quiet_env demo_sim = (None, ?s3)"
    using quiet_probe_run by (simp add: prod_eq_iff)
  have d: "''memory:'' \<notin> set (py_split (sim_output_err ?s3))"
    by (simp add: quiet_probe_err quiet_probe_tokens)
  note th = probe_parse_failure_uncaught [OF a b c d]
  have "step quiet_env (Worker 0) ?t = None"
  proof (cases "step quiet_env (Worker 0) ?t")
    case None
    then show ?thesis .
  next
    case (Some u)
    then have "run quiet_env [Worker 0] ?t = Some u" by simp
    with th have "Worker 0 \<notin> set [Worker 0]" by blast
    then show ?thesis by simp
  qed
  with th show ?thesis by blast
qed



lemma step_frame:
  assumes "step E a s = Some s'"
  shows "n_processes s' = n_processes s
       \<and> ((\<forall>r. a \<noteq> Manager r) \<longrightarrow>
            pc s' = pc s \<and> length (worker_process_list s') = length (worker_process_list s))
       \<and> ((\<exists>r. a = Manager r) \<longrightarrow> (\<forall>e. pc s \<noteq> C_raised e) \<and> pc s \<noteq> C_done)"
  using assms
  by (cases a) (auto dest!: queue_sim_frame worker_manager_frame worker_job_effect)




lemma fifo_step:
  assumes "step E a s = Some s'" and "fifo_inv H s"
  shows "fifo_inv (H @ submitted [a]) s'"
proof (cases a)
  case (Queue_sim sim b)
  with assms show ?thesis
    by (auto simp: queue_sim_def fifo_inv_def launched_def queued_def q_put_def
             split: sum.splits option.splits if_splits)
next
  case (Manager r)
  with assms show ?thesis
    by (cases "pc s";
        auto simp: worker_manager_def fifo_inv_def launched_def queued_def inflight_def
             is_raised_def q_get_Some
             split: option.splits sum.splits prod.splits if_splits
             dest!: input_file_keeps)
next
  case (Worker i)
  with assms(1) have "worker_job E i s = Some s'" by simp
  from worker_job_effect [OF this] obtain w' where
    "i < length (worker_process_list s)"
    "worker_process_list s' = (worker_process_list s)[i := w']"
    "sim_dir (w_sim w') = sim_dir (w_sim (worker_process_list s ! i))"
    "pc s' = pc s" "sim_queue s' = sim_queue s"
    by blast
  then have "launched s' = launched s" "queued s' = queued s" "pc s' = pc s"
    by (simp_all add: launched_def queued_def map_update list_update_same_conv)
  with assms(2) Worker show ?thesis by (simp add: fifo_inv_def)
qed

lemma submitted_Cons: "submitted (a # as) = submitted [a] @ submitted as"
  by (cases a) simp_all

lemma fifo_run:
  assumes "run E as s = Some s'" and "fifo_inv H s"
  shows "fifo_inv (H @ submitted as) s'"
  using assms
proof (induction as arbitrary: s H)
  case (Cons a as)
  from Cons.prems(1) obtain t where t: "step E a s = Some t" "run E as t = Some s'"
    by (auto split: option.splits)
  from Cons.IH [OF t(2) fifo_step [OF t(1) Cons.prems(2)]] show ?case
    by (subst submitted_Cons) simp
qed simp

text \<open>
  C3. In every reachable state the jobs launched so far are, in launch order, an initial
  segment of the jobs submitted so far: the \<open>k\<close>-th worker started runs the \<open>k\<close>-th job that
  \<^verbatim>\<open>queue_sim\<close> put into the queue. Hence a job enqueued earlier is launched no later.
\<close>

theorem launch_order_fifo:
  assumes "run E as (init n) = Some s"
  shows "length (launched s) \<le> length (submitted as)
       \<and> (\<forall>k<length (launched s). launched s ! k = submitted as ! k)"
proof -
  have "fifo_inv [] (init n)"
    by (simp add: fifo_inv_def init_def new_queue_def launched_def queued_def inflight_def)
  from fifo_run [OF assms this] obtain mid where
    "launched s @ mid @ queued s = submitted as"
    by (auto simp: fifo_inv_def)
  then have e: "submitted as = launched s @ (mid @ queued s)" by simp
  show ?thesis by (subst (1 2) e) (simp add: nth_append)
qed




lemma run_raised:
  assumes "run E as s = Some s'" and "pc s = C_raised e"
  shows "pc s' = C_raised e \<and> (\<forall>r. Manager r \<notin> set as)
         \<and> length (worker_process_list s') = length (worker_process_list s)"
  using assms
proof (induction as arbitrary: s)
  case (Cons a as)
  from Cons.prems(1) obtain t where t: "step E a s = Some t" "run E as t = Some s'"
    by (auto split: option.splits)
  have "pc t = C_raised e \<and> (\<forall>r. a \<noteq> Manager r)
           \<and> length (worker_process_list t) = length (worker_process_list s)"
    using step_frame [OF t(1)] Cons.prems(2) by (cases a) auto
  with Cons.IH [OF t(2)] show ?case by auto
qed simp

text \<open>
  C7. When the device query command exits with a non-zero status, \<^verbatim>\<open>gpu_resources\<close> raises
  \<^verbatim>\<open>RuntimeError\<close>; at either place where \<^verbatim>\<open>worker_manager\<close> calls it (before a launch, and
  in the headroom wait loop) the exception ends \<^verbatim>\<open>worker_manager\<close>; and in every continuation
  of the run the controller stays ended: it takes no further step, so it queries no more and
  launches nothing more.
\<close>

theorem resource_query_failure_fatal:
  assumes "code \<noteq> 0"
    and "pc s = C_query sim \<or> (pc s = C_wait f i m \<and> of_int f < 3 * m)"
  shows "gpu_resources (Exited code out) = Inl RuntimeError
       \<and> step E (Manager (Exited code out)) s = Some (s\<lparr>pc := C_raised RuntimeError\<rparr>)
       \<and> (\<forall>as s'. run E as (s\<lparr>pc := C_raised RuntimeError\<rparr>) = Some s' \<longrightarrow>
             pc s' = C_raised RuntimeError \<and> (\<forall>r. Manager r \<notin> set as)
           \<and> length (worker_process_list s') = length (worker_process_list s))"
proof -
  have g: "gpu_resources (Exited code out) = Inl RuntimeError"
    using assms(1) by (simp add: gpu_resources_def check_output_def)
  with assms(2) have "step E (Manager (Exited code out)) s = Some (s\<lparr>pc := C_raised RuntimeError\<rparr>)"
    by (auto simp: worker_manager_def)
  with g run_raised [of E _ "s\<lparr>pc := C_raised RuntimeError\<rparr>" _ RuntimeError]
  show ?thesis by simp
qed

lemma step_keeps_device:
  assumes "step E a s = Some s'" and "i < length (worker_process_list s)"
  shows "i < length (worker_process_list s')
       \<and> input (w_sim (worker_process_list s' ! i)) ''CUDA_device''
          = input (w_sim (worker_process_list s ! i)) ''CUDA_device''"
proof (cases a)
  case (Queue_sim sim b)
  with assms queue_sim_frame [of sim b s s'] show ?thesis by simp
next
  case (Manager r)
  with assms worker_manager_frame [of r s s'] show ?thesis by (auto simp: nth_append)
next
  case (Worker j)
  with assms(1) have "worker_job E j s = Some s'" by simp
  from worker_job_effect [OF this] obtain w' where
    "j < length (worker_process_list s)"
    "worker_process_list s' = (worker_process_list s)[j := w']"
    "input (w_sim w') ''CUDA_device'' = input (w_sim (worker_process_list s ! j)) ''CUDA_device''"
    by blast
  with assms(2) show ?thesis by (cases "i = j") simp_all
qed

lemma run_keeps_device:
  assumes "run E as s = Some s'" and "i < length (worker_process_list s)"
  shows "i < length (worker_process_list s')
       \<and> input (w_sim (worker_process_list s' ! i)) ''CUDA_device''
          = input (w_sim (worker_process_list s ! i)) ''CUDA_device''"
  using assms
proof (induction as arbitrary: s)
  case (Cons a as)
  then obtain t where t: "step E a s = Some t" "run E as t = Some s'"
    by (auto split: option.splits)
  from step_keeps_device [OF t(1) Cons.prems(2)] Cons.IH [OF t(2)] show ?case by simp
qed simp

lemma spawn_binds_device:
  assumes "pc s = C_spawn sim f idx" and "step E (Manager r) s = Some s'" and "\<not> is_raised (pc s')"
  shows "\<exists>w. worker_process_list s' = worker_process_list s @ [w]
            \<and> input (w_sim w) ''CUDA_device'' = Some (str_nat idx)"
  using assms
  by (auto simp: worker_manager_def is_raised_def split: prod.splits option.splits
           dest!: input_file_ok)




text \<open>
  C9. The controller writes the \<^verbatim>\<open>CUDA_device\<close> parameter of a job once, in the step that
  starts its worker, from the index the device query returned for that launch. A step of the
  headroom wait loop, whose re-query may return another index, changes no worker, no job and
  no queue. And in every continuation of a run, whatever the controller, the workers and the
  caller do, the \<^verbatim>\<open>CUDA_device\<close> parameter of a launched job stays what it was.
\<close>

theorem device_bound_once:
  "(pc s = C_spawn sim f idx \<longrightarrow> step E (Manager r) s = Some s' \<longrightarrow> \<not> is_raised (pc s') \<longrightarrow>
      length (worker_process_list s') = Suc (length (worker_process_list s))
    \<and> assigned_device (length (worker_process_list s)) s' = Some (str_nat idx))
   \<and> (pc s = C_wait f idx m \<longrightarrow> step E (Manager r) s = Some s' \<longrightarrow>
        worker_process_list s' = worker_process_list s \<and> sim_queue s' = sim_queue s
      \<and> process_queue s' = process_queue s \<and> gpu_memory_queue s' = gpu_memory_queue s)
   \<and> (run E as s = Some s'' \<longrightarrow> i < length (worker_process_list s) \<longrightarrow>
        i < length (worker_process_list s'') \<and> assigned_device i s'' = assigned_device i s)"
proof (intro conjI impI)
  assume a: "pc s = C_spawn sim f idx" "step E (Manager r) s = Some s'" "\<not> is_raised (pc s')"
  from spawn_binds_device [OF a] obtain w where
    w: "worker_process_list s' = worker_process_list s @ [w]"
       "input (w_sim w) ''CUDA_device'' = Some (str_nat idx)"
    by blast
  show "length (worker_process_list s') = Suc (length (worker_process_list s))"
    using w(1) by simp
  show "assigned_device (length (worker_process_list s)) s' = Some (str_nat idx)"
    using w by (simp add: assigned_device_def)
next
  assume a: "pc s = C_wait f idx m" "step E (Manager r) s = Some s'"
  then show "worker_process_list s' = worker_process_list s" "sim_queue s' = sim_queue s"
    "process_queue s' = process_queue s" "gpu_memory_queue s' = gpu_memory_queue s"
    by (auto simp: worker_manager_def split: if_splits sum.splits)
next
  assume a: "run E as s = Some s''" "i < length (worker_process_list s)"
  note k = run_keeps_device [OF a]
  show "i < length (worker_process_list s'')" using k by simp
  show "assigned_device i s'' = assigned_device i s" using k by (simp add: assigned_device_def)
qed

section \<open>Evaluation on the concrete instances\<close>

lemma query_eval:
  "gpu_resources demo_query = Inr (9000, 0)"
  "gpu_resources plenty_query = Inr (16000, 0)"
  "gpu_resources two_gpu_query = Inr (16000, 1)"
  by (simp_all add: demo_query_def plenty_query_def two_gpu_query_def gpu_resources_def
        check_output_def most_free_def avalible_memory_def output_to_list_def decode_ascii_def
        parse_line_def py_split_def is_space_def py_int_def is_digit_def digit_val_def)

lemmas run_eval = queue_sim_def prepare_sim_def q_put_def q_get_def q_full_def q_empty_def
  worker_manager_def worker_job_def set_worker_def init_def new_queue_def query_eval
  extract_eval probe_eval str_nat.simps demo_sim2_def


lemma admit_two_launched:
  "map_option launched (run demo_env admit_two (init 2)) = Some [''/sims/job1'', ''/sims/job2'']"
  by (simp add: run_eval admit_two_def launched_def)




theorem launch_order_fifo_witness:
  "run demo_env admit_two (init 2) \<noteq> None
   \<and> submitted admit_two = [''/sims/job1'', ''/sims/job2'']
   \<and> map_option launched (run demo_env admit_two (init 2)) = Some (submitted admit_two)"
proof -
  from admit_two_launched obtain s where s: "run demo_env admit_two (init 2) = Some s"
    and l: "launched s = [''/sims/job1'', ''/sims/job2'']"
    by auto
  have sub: "submitted admit_two = [''/sims/job1'', ''/sims/job2'']"
    by (simp add: admit_two_def prepare_sim_def demo_sim_def demo_sim2_def)
  from launch_order_fifo [OF s]
  have le: "length (launched s) \<le> length (submitted admit_two)"
    and nth: "\<forall>k<length (launched s). launched s ! k = submitted admit_two ! k"
    by simp_all
  have len: "length (launched s) = length (submitted admit_two)"
    using le l sub by simp
  have "launched s = submitted admit_two"
    using len nth by (intro nth_equalityI) simp_all
  with s sub show ?thesis by simp
qed


theorem resource_query_failure_fatal_witness:
  "(1::int) \<noteq> 0 \<and> pc demo_querying = C_query demo_sim
   \<and> step demo_env (Manager (Exited 1 [])) demo_querying
       = Some (demo_querying\<lparr>pc := C_raised RuntimeError\<rparr>)
   \<and> step demo_env (Manager demo_query) (demo_querying\<lparr>pc := C_raised RuntimeError\<rparr>) = None"
proof -
  have a: "(1::int) \<noteq> 0" by simp
  have b: "pc demo_querying = C_query demo_sim" by (simp add: demo_querying_def)
  then have b': "pc demo_querying = C_query demo_sim
      \<or> (pc demo_querying = C_wait 0 0 0 \<and> (of_int 0 :: rat) < 3 * 0)" by simp
  note th = resource_query_failure_fatal [OF a b', of "[]" demo_env]
  let ?t = "demo_querying\<lparr>pc := C_raised RuntimeError\<rparr>"
  have "step demo_env (Manager demo_query) ?t = None"
  proof (cases "step demo_env (Manager demo_query) ?t")
    case None
    then show ?thesis .
  next
    case (Some u)
    then have "run demo_env [Manager demo_query] ?t = Some u" by simp
    with th have "\<forall>r. Manager r \<notin> set [Manager demo_query]" by blast
    then show ?thesis by simp
  qed
  with th a b show ?thesis by blast
qed

lemma demo_wait_eval:
  "map_option pc (step demo_env (Manager two_gpu_query) demo_waiting) = Some (C_wait 16000 1 5000)"
  "assigned_device 0 demo_waiting = Some ''0''"
  "run demo_env [Manager two_gpu_query, Manager two_gpu_query] demo_waiting \<noteq> None"
  "map_option pc (step demo_env (Manager demo_query) demo_spawning) = Some (C_recv 9000 0)"
  by (simp_all add: run_eval demo_waiting_def demo_spawning_def demo_probing_def assigned_device_def)

lemma str_nat_0: "str_nat 0 = ''0''"
  by code_simp

theorem device_bound_once_witness:
  "map_option pc (step demo_env (Manager two_gpu_query) demo_waiting) = Some (C_wait 16000 1 5000)
   \<and> assigned_device 0 demo_waiting = Some ''0''
   \<and> map_option (assigned_device 0)
        (run demo_env [Manager two_gpu_query, Manager two_gpu_query] demo_waiting) = Some (Some ''0'')
   \<and> map_option (assigned_device 0) (step demo_env (Manager demo_query) demo_spawning)
        = Some (Some ''0'')"
proof -
  from demo_wait_eval(3) obtain s2 where
    s2: "run demo_env [Manager two_gpu_query, Manager two_gpu_query] demo_waiting = Some s2"
    by auto
  have i: "0 < length (worker_process_list demo_waiting)"
    by (simp add: demo_waiting_def)
  from device_bound_once [where s = demo_waiting and E = demo_env
      and as = "[Manager two_gpu_query, Manager two_gpu_query]" and s'' = s2 and i = 0] s2 i
  have a: "assigned_device 0 s2 = assigned_device 0 demo_waiting" by simp
  from demo_wait_eval(4) obtain s1 where
    s1: "step demo_env (Manager demo_query) demo_spawning = Some s1" and p1: "pc s1 = C_recv 9000 0"
    by auto
  have p0: "pc demo_spawning = C_spawn demo_sim 9000 0"
    and l0: "length (worker_process_list demo_spawning) = 0"
    by (simp_all add: demo_spawning_def)
  have nr: "\<not> is_raised (pc s1)" by (simp add: p1 is_raised_def)
  from device_bound_once [where s = demo_spawning and E = demo_env and r = demo_query
      and s' = s1 and sim = demo_sim and f = 9000 and idx = 0] p0 s1 nr
  have "assigned_device (length (worker_process_list demo_spawning)) s1 = Some (str_nat 0)"
    by simp
  then have b: "assigned_device 0 s1 = Some ''0''"
    by (simp add: l0 str_nat_0)
  from demo_wait_eval(1,2) s2 a s1 b show ?thesis by simp
qed




end
